theory Spec2Isabelle
  imports Complex_Main
begin

section \<open>Values of the evaluator\<close>

text \<open>
  The built-in functions of \<^verbatim>\<open>lib/visitor/evaluator/bifs.js\<close> receive and return nodes
  of the node library (\<^verbatim>\<open>require('../../nodes')\<close>). The file uses four node classes by
  name: \<^verbatim>\<open>nodes.Unit\<close> (a number \<^verbatim>\<open>val\<close> with an optional unit), \<^verbatim>\<open>nodes.Color\<close>
  (fields \<^verbatim>\<open>r g b a\<close>), \<^verbatim>\<open>nodes.HSLA\<close> (fields \<^verbatim>\<open>h s l a\<close>) and \<^verbatim>\<open>nodes.String\<close>.
  Any other node class is \<open>Other\<close>, carrying the name of its constructor.
  Numbers are modelled as reals: the file passes them through unchanged, and its only
  arithmetic is \<^verbatim>\<open>Math.round\<close>, which is exact on every finite number.
\<close>

datatype node =
    Unit real "string option"
  | Color real real real real
  | HSLA real real real real
  | String string
  | Other string

text \<open>The node classes, as the second argument of \<^verbatim>\<open>assertType\<close> names them.\<close>

datatype variant = VUnit | VColor | VHSLA | VString | VOther string

fun variant_of :: "node \<Rightarrow> variant" where
  "variant_of (Unit v t) = VUnit"
| "variant_of (Color r g b a) = VColor"
| "variant_of (HSLA h s l a) = VHSLA"
| "variant_of (String str) = VString"
| "variant_of (Other nm) = VOther nm"

text \<open>\<^verbatim>\<open>type.name\<close>, the name of a constructor function.\<close>

fun variant_name :: "variant \<Rightarrow> string" where
  "variant_name VUnit = ''Unit''"
| "variant_name VColor = ''Color''"
| "variant_name VHSLA = ''HSLA''"
| "variant_name VString = ''String''"
| "variant_name (VOther nm) = nm"

text \<open>\<^verbatim>\<open>node.constructor.name\<close>.\<close>

definition constructor_name :: "node \<Rightarrow> string" where
  "constructor_name node = variant_name (variant_of node)"

text \<open>
  The failures of a call. \<open>TypeMismatch\<close> and \<open>UnsupportedArity\<close> are the taxonomy of
  the specification (section 7); \<open>TypeMismatch\<close> carries the expected variants and the
  actual one.
  \<open>NativeTypeError\<close> is the TypeError the JavaScript runtime itself throws when a
  property of \<^verbatim>\<open>undefined\<close> is read.
\<close>

datatype error =
    TypeMismatch "variant list" "variant option"
  | UnsupportedArity
  | NativeTypeError

type_synonym result = "error + node"

text \<open>Sequencing of calls that may throw: the first failure is the outcome.\<close>

definition bindE :: "error + 'a \<Rightarrow> ('a \<Rightarrow> error + 'b) \<Rightarrow> error + 'b" where
  "bindE m f = (case m of Inl e \<Rightarrow> Inl e | Inr x \<Rightarrow> f x)"

text \<open>
  A call site supplies the argument values in order; \<^verbatim>\<open>arguments.length\<close> is the length
  of that list, and a formal parameter beyond it is \<^verbatim>\<open>undefined\<close> (\<open>None\<close>). An element
  of the list can itself be \<open>None\<close>: \<^verbatim>\<open>hsl\<close> and \<^verbatim>\<open>rgb\<close> forward their own, possibly
  missing, parameters to \<^verbatim>\<open>hsla\<close> and \<^verbatim>\<open>rgba\<close>.
\<close>

definition param :: "nat \<Rightarrow> node option list \<Rightarrow> node option" where
  "param i arguments = (if i < length arguments then arguments ! i else None)"

section \<open>The collaborators: type assertions and colour projections\<close>

text \<open>
  Modelled from the spec: \<^verbatim>\<open>utils.assertType\<close> (\<^verbatim>\<open>require('./utils')\<close> is not among the
  sources). Section 4.1: it returns the value unchanged if the value's variant equals
  the required variant, and otherwise fails with a TypeMismatch carrying the expected
  and the actual variant; no coercion is attempted. Section 4.1 speaks of a value that
  has a variant. What the assertion does on a missing argument (JavaScript's
  \<^verbatim>\<open>undefined\<close>) is said by neither the sources nor the specification, so the model
  gives no equation for it: the outcome of such a call is left open, and no theorem
  below states one.
\<close>

fun assertType :: "node option \<Rightarrow> variant \<Rightarrow> error + node" where
  "assertType (Some n) t =
     (if variant_of n = t then Inr n else Inl (TypeMismatch [t] (Some (variant_of n))))"

text \<open>
  Modelled from the spec: \<^verbatim>\<open>utils.assertColor\<close>. Section 4.1: the relaxed form, which
  passes if the value's variant is either the RGB colour or the HSL colour, and
  otherwise fails with TypeMismatch. As for \<^verbatim>\<open>assertType\<close>, there is no equation for a
  missing argument.
\<close>

fun assertColor :: "node option \<Rightarrow> error + node" where
  "assertColor (Some n) =
     (if variant_of n = VColor \<or> variant_of n = VHSLA then Inr n
      else Inl (TypeMismatch [VColor, VHSLA] (Some (variant_of n))))"

text \<open>
  The conversion between the colour spaces, on the three colour channels. Neither the
  sources nor the specification give its formulas, so it is a parameter of the model.
\<close>

record conversions =
  rgb_to_hsl :: "real \<times> real \<times> real \<Rightarrow> real \<times> real \<times> real"
  hsl_to_rgb :: "real \<times> real \<times> real \<Rightarrow> real \<times> real \<times> real"

text \<open>
  Modelled from the spec: the getter \<^verbatim>\<open>.hsl\<close> of a \<^verbatim>\<open>Color\<close> node, its HSL projection.
  Section 3: hue, saturation and lightness are computed from the channels on every
  read, and alpha is carried through unchanged. bifs.js reads \<^verbatim>\<open>.hsl\<close> only behind
  \<^verbatim>\<open>assertType(h, nodes.Color)\<close>, so the getter is given for that variant only.
\<close>

fun hsl_of :: "conversions \<Rightarrow> node \<Rightarrow> node" where
  "hsl_of cv (Color r g b a) = (case rgb_to_hsl cv (r, g, b) of (h, s, l) \<Rightarrow> HSLA h s l a)"

text \<open>
  Modelled from the spec: the getter \<^verbatim>\<open>.rgba\<close> of a colour-like node, its RGB projection,
  as the fields \<open>(r, g, b, a)\<close>. Sections 3 and 4.3: an RGB colour's own channels, an HSL
  colour's channels converted, alpha carried through unprojected. bifs.js reads
  \<^verbatim>\<open>.rgba\<close> only behind \<^verbatim>\<open>assertColor\<close>, so the getter is given for these two variants.
\<close>

fun rgba_of :: "conversions \<Rightarrow> node \<Rightarrow> real \<times> real \<times> real \<times> real" where
  "rgba_of cv (Color r g b a) = (r, g, b, a)"
| "rgba_of cv (HSLA h s l a) = (case hsl_to_rgb cv (h, s, l) of (r, g, b) \<Rightarrow> (r, g, b, a))"

text \<open>The field \<^verbatim>\<open>.val\<close> of a \<^verbatim>\<open>Unit\<close> node; every read is behind \<^verbatim>\<open>assertType(_, nodes.Unit)\<close>.\<close>

fun val :: "node \<Rightarrow> real" where
  "val (Unit v t) = v"

text \<open>The fields \<^verbatim>\<open>.h\<close>, \<^verbatim>\<open>.s\<close>, \<^verbatim>\<open>.l\<close> of an \<^verbatim>\<open>HSLA\<close> node, read behind \<^verbatim>\<open>assertType(_, nodes.HSLA)\<close>.\<close>

fun hsla_h :: "node \<Rightarrow> real" where
  "hsla_h (HSLA h s l a) = h"

fun hsla_s :: "node \<Rightarrow> real" where
  "hsla_s (HSLA h s l a) = s"

fun hsla_l :: "node \<Rightarrow> real" where
  "hsla_l (HSLA h s l a) = l"

text \<open>
  \<^verbatim>\<open>Math.round\<close>: the closest integer, a tie going towards plus infinity.
\<close>

definition Math_round :: "real \<Rightarrow> real" where
  "Math_round x = of_int \<lfloor>x + 1 / 2\<rfloor>"

text \<open>\<^verbatim>\<open>String.prototype.toLowerCase\<close>, on the ASCII letters constructor names are made of.\<close>

definition lower_char :: "char \<Rightarrow> char" where
  "lower_char c =
     (let n = (of_char c :: nat) in if 65 \<le> n \<and> n \<le> 90 then char_of (n + 32) else c)"

definition toLowerCase :: "string \<Rightarrow> string" where
  "toLowerCase str = map lower_char str"

section \<open>The built-in functions\<close>

text \<open>\<^verbatim>\<open>exports.hsla = function(h,s,l,a)\<close>: switch on \<^verbatim>\<open>arguments.length\<close>, case 1 and default.\<close>

definition hsla :: "conversions \<Rightarrow> node option list \<Rightarrow> result" where
  "hsla cv arguments =
     (let h = param 0 arguments; s = param 1 arguments;
          l = param 2 arguments; a = param 3 arguments
      in if length arguments = 1 then
           bindE (assertType h VColor) (\<lambda>h'. Inr (hsl_of cv h'))
         else
           bindE (assertType h VUnit) (\<lambda>h'.
           bindE (assertType s VUnit) (\<lambda>s'.
           bindE (assertType l VUnit) (\<lambda>l'.
           bindE (assertType a VUnit) (\<lambda>a'.
             Inr (HSLA (val h') (val s') (val l') (val a')))))))"

text \<open>
  \<^verbatim>\<open>exports.hsl = function(h,s,l)\<close>: with more than one argument it calls \<^verbatim>\<open>hsla\<close> with
  exactly four arguments, the last \<^verbatim>\<open>new nodes.Unit(1)\<close>.
\<close>

definition hsl :: "conversions \<Rightarrow> node option list \<Rightarrow> result" where
  "hsl cv arguments =
     (let h = param 0 arguments; s = param 1 arguments; l = param 2 arguments
      in if length arguments > 1 then hsla cv [h, s, l, Some (Unit 1 None)]
         else bindE (assertType h VColor) (\<lambda>h'. Inr (hsl_of cv h')))"

text \<open>
  \<^verbatim>\<open>exports.type = function(node)\<close>: reading \<^verbatim>\<open>node.constructor\<close> of a missing argument
  throws the runtime's TypeError.
\<close>

definition type :: "node option list \<Rightarrow> result" where
  "type arguments =
     (case param 0 arguments of
        None \<Rightarrow> Inl NativeTypeError
      | Some node \<Rightarrow> Inr (String (toLowerCase (constructor_name node))))"

definition hue :: "node option list \<Rightarrow> result" where
  "hue arguments =
     bindE (assertType (param 0 arguments) VHSLA) (\<lambda>hsla'.
       Inr (Unit (Math_round (hsla_h hsla')) (Some ''deg'')))"

definition saturation :: "node option list \<Rightarrow> result" where
  "saturation arguments =
     bindE (assertType (param 0 arguments) VHSLA) (\<lambda>hsla'.
       Inr (Unit (Math_round (hsla_s hsla')) (Some ''%'')))"

definition lightness :: "node option list \<Rightarrow> result" where
  "lightness arguments =
     bindE (assertType (param 0 arguments) VHSLA) (\<lambda>hsla'.
       Inr (Unit (Math_round (hsla_l hsla')) (Some ''%'')))"

definition alpha :: "conversions \<Rightarrow> node option list \<Rightarrow> result" where
  "alpha cv arguments =
     bindE (assertColor (param 0 arguments)) (\<lambda>color.
       case rgba_of cv color of (cr, cg, cb, ca) \<Rightarrow> Inr (Unit ca None))"

definition red :: "conversions \<Rightarrow> node option list \<Rightarrow> result" where
  "red cv arguments =
     bindE (assertColor (param 0 arguments)) (\<lambda>color.
       case rgba_of cv color of (cr, cg, cb, ca) \<Rightarrow> Inr (Unit cr None))"

definition green :: "conversions \<Rightarrow> node option list \<Rightarrow> result" where
  "green cv arguments =
     bindE (assertColor (param 0 arguments)) (\<lambda>color.
       case rgba_of cv color of (cr, cg, cb, ca) \<Rightarrow> Inr (Unit cg None))"

definition blue :: "conversions \<Rightarrow> node option list \<Rightarrow> result" where
  "blue cv arguments =
     bindE (assertColor (param 0 arguments)) (\<lambda>color.
       case rgba_of cv color of (cr, cg, cb, ca) \<Rightarrow> Inr (Unit cb None))"

text \<open>
  \<^verbatim>\<open>exports.rgba = function(r,g,b,a)\<close>: switch on \<^verbatim>\<open>arguments.length\<close>, cases 1 and 2 and
  default. In case 2 the projection \<^verbatim>\<open>r.rgba\<close> is read before \<^verbatim>\<open>g\<close> is asserted; the
  projection cannot fail, so the order shows in no outcome.
\<close>

definition rgba :: "conversions \<Rightarrow> node option list \<Rightarrow> result" where
  "rgba cv arguments =
     (let r = param 0 arguments; g = param 1 arguments;
          b = param 2 arguments; a = param 3 arguments
      in if length arguments = 1 then
           bindE (assertColor r) (\<lambda>r'.
             case rgba_of cv r' of (cr, cg, cb, ca) \<Rightarrow> Inr (Color cr cg cb ca))
         else if length arguments = 2 then
           bindE (assertColor r) (\<lambda>r'.
             case rgba_of cv r' of (cr, cg, cb, ca) \<Rightarrow>
               bindE (assertType g VUnit) (\<lambda>g'. Inr (Color cr cg cb (val g'))))
         else
           bindE (assertType r VUnit) (\<lambda>r'.
           bindE (assertType g VUnit) (\<lambda>g'.
           bindE (assertType b VUnit) (\<lambda>b'.
           bindE (assertType a VUnit) (\<lambda>a'.
             Inr (Color (val r') (val g') (val b') (val a')))))))"

text \<open>
  \<^verbatim>\<open>exports.rgb = function(r,g,b)\<close>: case 1, and by default a call of \<^verbatim>\<open>rgba\<close> with
  exactly four arguments, the last \<^verbatim>\<open>new nodes.Unit(1)\<close>.
\<close>

definition rgb :: "conversions \<Rightarrow> node option list \<Rightarrow> result" where
  "rgb cv arguments =
     (let r = param 0 arguments; g = param 1 arguments; b = param 2 arguments
      in if length arguments = 1 then
           bindE (assertColor r) (\<lambda>r'.
             case rgba_of cv r' of (cr, cg, cb, ca) \<Rightarrow> Inr (Color cr cg cb 1))
         else rgba cv [r, g, b, Some (Unit 1 None)])"

text \<open>
  The module's \<^verbatim>\<open>exports\<close>, in the order of the file: the table the evaluator looks a
  function name up in. The evaluator passes evaluated nodes, none of them missing.
\<close>

definition exports :: "conversions \<Rightarrow> (string \<times> (node option list \<Rightarrow> result)) list" where
  "exports cv =
     [(''hsla'', hsla cv), (''hsl'', hsl cv), (''type'', type),
      (''hue'', hue), (''saturation'', saturation), (''lightness'', lightness),
      (''alpha'', alpha cv), (''red'', red cv), (''green'', green cv), (''blue'', blue cv),
      (''rgba'', rgba cv), (''rgb'', rgb cv)]"

definition call :: "conversions \<Rightarrow> string \<Rightarrow> node list \<Rightarrow> result option" where
  "call cv name args = map_option (\<lambda>f. f (map Some args)) (map_of (exports cv) name)"

text \<open>Colour-like: the capability \<^verbatim>\<open>assertColor\<close> accepts.\<close>

definition color_like :: "node \<Rightarrow> bool" where
  "color_like n = (variant_of n = VColor \<or> variant_of n = VHSLA)"

fun is_TypeMismatch :: "result \<Rightarrow> bool" where
  "is_TypeMismatch (Inl (TypeMismatch ex act)) = True"
| "is_TypeMismatch _ = False"

text \<open>
  A concrete conversion for evaluating the model at explicit inputs: it is right on the
  greys (saturation 0, the three channels equal), which is all the examples below use.
\<close>

definition grey_conversions :: conversions where
  "grey_conversions =
     \<lparr>rgb_to_hsl = (\<lambda>(r, g, b). (0, 0, r * 100 / 255)),
      hsl_to_rgb = (\<lambda>(h, s, l). (l * 255 / 100, l * 255 / 100, l * 255 / 100))\<rparr>"

section \<open>Basic facts\<close>

lemma bindE_simps [simp]:
  "bindE (Inl e) f = Inl e"
  "bindE (Inr x) f = f x"
  by (simp_all add: bindE_def)

lemma toLowerCase_names:
  "toLowerCase ''Unit'' = ''unit''"
  "toLowerCase ''Color'' = ''color''"
  "toLowerCase ''HSLA'' = ''hsla''"
  "toLowerCase ''String'' = ''string''"
  by code_simp+

lemma Math_round_nearest: "Math_round x \<in> \<int> \<and> \<bar>Math_round x - x\<bar> \<le> 1 / 2"
proof
  show "Math_round x \<in> \<int>"
    by (simp add: Math_round_def)
  show "\<bar>Math_round x - x\<bar> \<le> 1 / 2"
    unfolding Math_round_def by linarith
qed

section \<open>Conversion to HSL: \<^verbatim>\<open>hsla\<close> and \<^verbatim>\<open>hsl\<close> with one argument\<close>

text \<open>
  C1, as amended. For every RGB colour \<open>v\<close> (variant \<open>Color\<close>) the one-argument calls
  \<^verbatim>\<open>hsla(v)\<close> and \<^verbatim>\<open>hsl(v)\<close> succeed and return the HSL projection of \<open>v\<close>. On an HSL colour
  (variant \<open>HSLA\<close>) both fail with TypeMismatch, expected \<open>Color\<close>: the code asserts
  \<^verbatim>\<open>assertType(h, nodes.Color)\<close>, the exact variant, not \<^verbatim>\<open>assertColor\<close>.
\<close>

theorem hsla_hsl_one_argument:
  "hsla cv [Some (Color r g b a)] = Inr (hsl_of cv (Color r g b a)) \<and>
   hsl cv [Some (Color r g b a)] = Inr (hsl_of cv (Color r g b a)) \<and>
   hsla cv [Some (HSLA h s l a')] = Inl (TypeMismatch [VColor] (Some VHSLA)) \<and>
   hsl cv [Some (HSLA h s l a')] = Inl (TypeMismatch [VColor] (Some VHSLA))"
  by (simp add: hsla_def hsl_def param_def)

text \<open>
  C1 as stated fails: pure red as an HSL colour is colour-like, and both calls fail on it
  with a TypeMismatch.
\<close>

theorem hsla_hsl_HSLA_counterexample:
  "color_like (HSLA 0 100 50 1) \<and>
   is_TypeMismatch (hsla grey_conversions [Some (HSLA 0 100 50 1)]) \<and>
   is_TypeMismatch (hsl grey_conversions [Some (HSLA 0 100 50 1)])"
  by (simp add: color_like_def hsla_def hsl_def param_def)

text \<open>
  C4, as amended. For every RGB colour \<open>c\<close> the one-argument calls \<^verbatim>\<open>hsl(c)\<close> and
  \<^verbatim>\<open>hsla(c)\<close> return an HSL colour whose alpha is the alpha of \<open>c\<close>, unchanged.
\<close>

theorem hsl_alpha_preserved:
  "\<exists>h s l. hsl cv [Some (Color r g b a)] = Inr (HSLA h s l a) \<and>
            hsla cv [Some (Color r g b a)] = Inr (HSLA h s l a)"
  by (simp add: hsla_def hsl_def param_def split: prod.split)

text \<open>
  C4 as stated fails on the other colour-like variant: \<^verbatim>\<open>hsl\<close> of an HSL colour of
  alpha 0.4 returns no colour at all.
\<close>

theorem hsl_alpha_HSLA_counterexample:
  "color_like (HSLA 0 0 50 (4 / 10)) \<and>
   hsl grey_conversions [Some (HSLA 0 0 50 (4 / 10))] = Inl (TypeMismatch [VColor] (Some VHSLA)) \<and>
   hsla grey_conversions [Some (HSLA 0 0 50 (4 / 10))] = Inl (TypeMismatch [VColor] (Some VHSLA))"
  by (simp add: color_like_def hsla_def hsl_def param_def)

section \<open>Argument counts\<close>




text \<open>
  C10. With five or more arguments \<^verbatim>\<open>rgba\<close> has the outcome of \<^verbatim>\<open>rgba\<close> on the first
  four, and \<^verbatim>\<open>hsla\<close> the outcome of \<^verbatim>\<open>hsla\<close> on the first four: both take the default
  branch, which reads the four formal parameters only.
\<close>

theorem surplus_arguments_ignored:
  "5 \<le> length args \<Longrightarrow>
   rgba cv args = rgba cv (take 4 args) \<and> hsla cv args = hsla cv (take 4 args)"
  by (auto simp add: rgba_def hsla_def param_def)

theorem surplus_arguments_ignored_witness:
  "5 \<le> length [Some (Unit 255 None), Some (Unit 0 None), Some (Unit 0 None),
       Some (Unit (1 / 2) None), Some (String ''surplus'')] \<and>
   rgba grey_conversions [Some (Unit 255 None), Some (Unit 0 None), Some (Unit 0 None),
       Some (Unit (1 / 2) None), Some (String ''surplus'')] = Inr (Color 255 0 0 (1 / 2)) \<and>
   hsla grey_conversions [Some (Unit 255 None), Some (Unit 0 None), Some (Unit 0 None),
       Some (Unit (1 / 2) None), Some (String ''surplus'')] = Inr (HSLA 255 0 0 (1 / 2))"
proof -
  have four: "rgba grey_conversions [Some (Unit 255 None), Some (Unit 0 None),
        Some (Unit 0 None), Some (Unit (1 / 2) None)] = Inr (Color 255 0 0 (1 / 2))"
      "hsla grey_conversions [Some (Unit 255 None), Some (Unit 0 None),
        Some (Unit 0 None), Some (Unit (1 / 2) None)] = Inr (HSLA 255 0 0 (1 / 2))"
    by (simp_all add: rgba_def hsla_def param_def)
  show ?thesis
    using four surplus_arguments_ignored [of "[Some (Unit 255 None), Some (Unit 0 None),
       Some (Unit 0 None), Some (Unit (1 / 2) None), Some (String ''surplus'')]"
       grey_conversions]
    by simp
qed

section \<open>Construction of RGB colours: \<^verbatim>\<open>rgb\<close> and \<^verbatim>\<open>rgba\<close>\<close>

text \<open>
  C3. For every colour-like \<open>c\<close>, whatever its alpha, the one-argument call \<^verbatim>\<open>rgb(c)\<close>
  returns a \<open>Color\<close> whose channels are those of the RGB projection of \<open>c\<close> and whose
  alpha is exactly 1.
\<close>

theorem rgb_one_argument_opaque:
  "color_like c \<Longrightarrow>
   rgb cv [Some c] = (case rgba_of cv c of (cr, cg, cb, ca) \<Rightarrow> Inr (Color cr cg cb 1))"
  by (simp add: rgb_def param_def color_like_def)

theorem rgb_one_argument_opaque_witness:
  "color_like (HSLA 0 0 100 (4 / 10)) \<and>
   rgb grey_conversions [Some (HSLA 0 0 100 (4 / 10))] = Inr (Color 255 255 255 1)"
  using rgb_one_argument_opaque [of "HSLA 0 0 100 (4 / 10)" grey_conversions]
  by (simp add: color_like_def grey_conversions_def)

text \<open>
  C6. A four-argument call \<^verbatim>\<open>rgba(r,g,b,a)\<close> of four \<open>Unit\<close> nodes returns the \<open>Color\<close> of
  their four magnitudes. If any of the four arguments is not a \<open>Unit\<close> (a colour in
  first place included), the call fails with a TypeMismatch that expects \<open>Unit\<close> and
  carries the variant of an argument that is not one.
\<close>

theorem rgba_four_arguments:
  "rgba cv [Some (Unit r tr), Some (Unit g tg), Some (Unit b tb), Some (Unit a ta)] =
     Inr (Color r g b a) \<and>
   (variant_of x \<noteq> VUnit \<or> variant_of y \<noteq> VUnit \<or> variant_of z \<noteq> VUnit \<or>
    variant_of w \<noteq> VUnit \<longrightarrow>
    (\<exists>n \<in> set [x, y, z, w]. variant_of n \<noteq> VUnit \<and>
       rgba cv [Some x, Some y, Some z, Some w] =
         Inl (TypeMismatch [VUnit] (Some (variant_of n)))))"
  by (auto simp add: rgba_def param_def)

theorem rgba_four_arguments_witness:
  "variant_of (Color 255 0 0 1) \<noteq> VUnit \<and>
   rgba grey_conversions [Some (Color 255 0 0 1), Some (Unit 0 None), Some (Unit 0 None),
     Some (Unit (1 / 2) None)] = Inl (TypeMismatch [VUnit] (Some VColor))"
  using rgba_four_arguments [of grey_conversions 0 None 0 None 0 None 0 None
     "Color 255 0 0 1" "Unit 0 None" "Unit 0 None" "Unit (1 / 2) None"]
  by simp

text \<open>
  C7. For every colour-like \<open>c\<close> and every \<open>Unit\<close> of magnitude \<open>v\<close>, the two-argument call
  \<^verbatim>\<open>rgba(c, a)\<close> returns the \<open>Color\<close> of the channels of the RGB projection of \<open>c\<close> with
  alpha \<open>v\<close>. A first argument that is not colour-like fails with TypeMismatch, and so
  does a second argument that is not a \<open>Unit\<close>.
\<close>

theorem rgba_two_arguments:
  "(color_like c \<longrightarrow>
      rgba cv [Some c, Some (Unit v t)] =
        (case rgba_of cv c of (cr, cg, cb, ca) \<Rightarrow> Inr (Color cr cg cb v))) \<and>
   (\<not> color_like x \<longrightarrow>
      rgba cv [Some x, Some y] = Inl (TypeMismatch [VColor, VHSLA] (Some (variant_of x)))) \<and>
   (color_like x \<and> variant_of y \<noteq> VUnit \<longrightarrow>
      rgba cv [Some x, Some y] = Inl (TypeMismatch [VUnit] (Some (variant_of y))))"
  by (auto simp add: rgba_def param_def color_like_def split: prod.split)

theorem rgba_two_arguments_witness:
  "color_like (Color 255 204 0 1) \<and>
   rgba grey_conversions [Some (Color 255 204 0 1), Some (Unit (1 / 2) None)] =
     Inr (Color 255 204 0 (1 / 2)) \<and>
   \<not> color_like (Unit 255 None) \<and>
   rgba grey_conversions [Some (Unit 255 None), Some (Unit (1 / 2) None)] =
     Inl (TypeMismatch [VColor, VHSLA] (Some VUnit)) \<and>
   variant_of (String ''half'') \<noteq> VUnit \<and>
   rgba grey_conversions [Some (Color 255 204 0 1), Some (String ''half'')] =
     Inl (TypeMismatch [VUnit] (Some VString))"
  using rgba_two_arguments [of "Color 255 204 0 1" grey_conversions "1 / 2" None
      "Unit 255 None" "Unit (1 / 2) None"]
    rgba_two_arguments [of "Color 255 204 0 1" grey_conversions "1 / 2" None
      "Color 255 204 0 1" "String ''half''"]
  by (simp add: color_like_def)

section \<open>Accessors\<close>

text \<open>
  C5. On every RGB colour (variant \<open>Color\<close>) each of \<^verbatim>\<open>hue\<close>, \<^verbatim>\<open>saturation\<close> and
  \<^verbatim>\<open>lightness\<close> fails with TypeMismatch, expected \<open>HSLA\<close>; each of them succeeds on a
  node exactly when its variant is \<open>HSLA\<close>.
\<close>

theorem hue_saturation_lightness_exact_variant:
  "hue [Some (Color r g b a)] = Inl (TypeMismatch [VHSLA] (Some VColor)) \<and>
   saturation [Some (Color r g b a)] = Inl (TypeMismatch [VHSLA] (Some VColor)) \<and>
   lightness [Some (Color r g b a)] = Inl (TypeMismatch [VHSLA] (Some VColor)) \<and>
   (\<exists>u. hue [Some n] = Inr u) = (variant_of n = VHSLA) \<and>
   (\<exists>u. saturation [Some n] = Inr u) = (variant_of n = VHSLA) \<and>
   (\<exists>u. lightness [Some n] = Inr u) = (variant_of n = VHSLA)"
  by (simp add: hue_def saturation_def lightness_def param_def)

text \<open>
  C8. On every HSL colour \<^verbatim>\<open>hue\<close> returns the hue rounded, in \<^verbatim>\<open>deg\<close>, and \<^verbatim>\<open>saturation\<close>
  and \<^verbatim>\<open>lightness\<close> return their component rounded, in \<^verbatim>\<open>%\<close>; the rounding gives an
  integer at distance at most one half. On every colour-like node \<^verbatim>\<open>alpha\<close>, \<^verbatim>\<open>red\<close>,
  \<^verbatim>\<open>green\<close> and \<^verbatim>\<open>blue\<close> return the alpha and the channels of its RGB projection as they
  are, without a unit.
\<close>

theorem accessors_components:
  "hue [Some (HSLA h s l a)] = Inr (Unit (Math_round h) (Some ''deg'')) \<and>
   saturation [Some (HSLA h s l a)] = Inr (Unit (Math_round s) (Some ''%'')) \<and>
   lightness [Some (HSLA h s l a)] = Inr (Unit (Math_round l) (Some ''%'')) \<and>
   Math_round x \<in> \<int> \<and> \<bar>Math_round x - x\<bar> \<le> 1 / 2 \<and>
   (color_like c \<longrightarrow>
      (case rgba_of cv c of (cr, cg, cb, ca) \<Rightarrow>
         alpha cv [Some c] = Inr (Unit ca None) \<and>
         red cv [Some c] = Inr (Unit cr None) \<and>
         green cv [Some c] = Inr (Unit cg None) \<and>
         blue cv [Some c] = Inr (Unit cb None)))"
  using Math_round_nearest [of x]
  by (simp add: hue_def saturation_def lightness_def alpha_def red_def green_def blue_def
      param_def color_like_def split: prod.split)

theorem accessors_components_witness:
  "color_like (Color 255 204 0 (3 / 10)) \<and>
   alpha grey_conversions [Some (Color 255 204 0 (3 / 10))] = Inr (Unit (3 / 10) None) \<and>
   red grey_conversions [Some (Color 255 204 0 (3 / 10))] = Inr (Unit 255 None) \<and>
   green grey_conversions [Some (Color 255 204 0 (3 / 10))] = Inr (Unit 204 None) \<and>
   blue grey_conversions [Some (Color 255 204 0 (3 / 10))] = Inr (Unit 0 None) \<and>
   hue [Some (HSLA (99 / 2) 100 (401 / 5) 1)] = Inr (Unit 50 (Some ''deg'')) \<and>
   lightness [Some (HSLA (99 / 2) 100 (401 / 5) 1)] = Inr (Unit 80 (Some ''%''))"
  using accessors_components [of "99 / 2" 100 "401 / 5" 1 0 "Color 255 204 0 (3 / 10)"
      grey_conversions]
  by (simp add: color_like_def Math_round_def)

text \<open>
  C9. \<^verbatim>\<open>type\<close> succeeds on every node, whatever follows it in the call, and returns the
  \<open>String\<close> of the lower-cased name of the node's constructor: \<^verbatim>\<open>unit\<close> for a \<open>Unit\<close>,
  \<^verbatim>\<open>color\<close> for a \<open>Color\<close>.
\<close>

theorem type_total:
  "type (Some n # rest) = Inr (String (toLowerCase (constructor_name n))) \<and>
   call cv ''type'' [n] = Some (Inr (String (toLowerCase (constructor_name n)))) \<and>
   type [Some (Unit v t)] = Inr (String ''unit'') \<and>
   type [Some (Color r g b a)] = Inr (String ''color'')"
  by (simp add: type_def call_def exports_def param_def constructor_name_def toLowerCase_names)

end
